theory Spec2Isabelle
  imports Complex_Main
begin

section \<open>Trend classification (trends.py, stream\_trader.py)\<close>

text \<open>
  The indicator values are Python floats read from decimal text by the alert parser, so no
  NaN occurs and the comparisons \<open><\<close>, \<open>>\<close>, \<open>\<le>\<close>, \<open>\<ge>\<close> are those of a linear order;
  the model compares them as reals. A record \<open>rec\<close> stands for the dictionary with the
  keys \<open>price\<close>, \<open>sma20\<close>, \<open>ema20\<close>, \<open>ema9\<close> that the callers pass.
\<close>

record rec =
  price :: real
  sma20 :: real
  ema20 :: real
  ema9 :: real

datatype trend_label = UP | DOWN

text \<open>\<open>Trend = Optional[Literal["UP","DOWN"]]\<close>: the neutral answer is \<open>None\<close>.\<close>

type_synonym Trend = "trend_label option"

definition is_downtrend :: "rec \<Rightarrow> bool" where
  "is_downtrend r = (sma20 r > ema20 r \<and> ema20 r > ema9 r)"

definition is_uptrend :: "rec \<Rightarrow> bool" where
  "is_uptrend r = (sma20 r < ema20 r \<and> ema20 r < ema9 r)"

definition trend_of :: "rec \<Rightarrow> Trend" where
  "trend_of r =
     (if is_uptrend r then Some UP
      else if is_downtrend r then Some DOWN
      else None)"

text \<open>\<open>derive_trend(price, ema9, ema20, sma20)\<close> of stream\_trader.py, with its argument order.\<close>

definition derive_trend :: "real \<Rightarrow> real \<Rightarrow> real \<Rightarrow> real \<Rightarrow> string" where
  "derive_trend p e9 e20 s20 =
     (if e9 > e20 \<and> e20 > s20 \<and> p \<ge> e9 then ''uptrend''
      else if e9 < e20 \<and> e20 < s20 \<and> p \<le> e9 then ''downtrend''
      else ''neutral'')"

section \<open>Indicator series (indicators.py)\<close>

text \<open>
  \<open>collections.deque(maxlen=m)\<close>: a sequence with an optional bound. Appending to a full
  bounded deque discards the item at the left end; a deque of bound 0 stays empty.
\<close>

record 'a deque =
  dq_maxlen :: "nat option"
  items :: "'a list"

definition deque_new :: "nat option \<Rightarrow> 'a deque" where
  "deque_new m = \<lparr>dq_maxlen = m, items = []\<rparr>"

definition deque_append :: "'a deque \<Rightarrow> 'a \<Rightarrow> 'a deque" where
  "deque_append d x =
     (case dq_maxlen d of
        None \<Rightarrow> d\<lparr>items := items d @ [x]\<rparr>
      | Some m \<Rightarrow>
          if m = 0 then d
          else if length (items d) \<ge> m
            then d\<lparr>items := drop (Suc (length (items d) - m)) (items d) @ [x]\<rparr>
            else d\<lparr>items := items d @ [x]\<rparr>)"

type_synonym datetime = nat

text \<open>The field \<open>values\<close> is named \<open>values_dq\<close> here (\<open>values\<close> is reserved).\<close>

record IndicatorSeries =
  maxlen :: int
  values_dq :: "real deque"
  timestamps :: "datetime deque"

text \<open>
  The dataclass constructor called with \<open>maxlen=k\<close> only: the two deques come from their
  \<open>default_factory\<close>, which is \<open>deque(maxlen=200)\<close> whatever \<open>k\<close> is.
\<close>

definition IndicatorSeries_init :: "int \<Rightarrow> IndicatorSeries" where
  "IndicatorSeries_init k =
     \<lparr>maxlen = k, values_dq = deque_new (Some 200), timestamps = deque_new (Some 200)\<rparr>"

definition update :: "IndicatorSeries \<Rightarrow> real \<Rightarrow> datetime \<Rightarrow> IndicatorSeries" where
  "update s v ts =
     s\<lparr>values_dq := deque_append (values_dq s) v, timestamps := deque_append (timestamps s) ts\<rparr>"

definition current :: "IndicatorSeries \<Rightarrow> real option" where
  "current s = (if items (values_dq s) \<noteq> [] then Some (last (items (values_dq s))) else None)"

text \<open>
  \<open>list(self.values)[-n-0]\<close> is the element at index \<open>len - n\<close>; behind the guard
  \<open>1 \<le> n \<le> len\<close> the index is in range.
\<close>

definition prev :: "IndicatorSeries \<Rightarrow> int \<Rightarrow> real option" where
  "prev s n =
     (let xs = items (values_dq s) in
      if n \<le> 0 \<or> n > int (length xs) then None
      else Some (xs ! nat (int (length xs) - n)))"

text \<open>\<open>list(self.values)[-n:]\<close> is the suffix of the last \<open>n\<close> items, the whole list when
  \<open>n\<close> exceeds its length.\<close>

definition last_n :: "IndicatorSeries \<Rightarrow> int \<Rightarrow> real list" where
  "last_n s n =
     (let xs = items (values_dq s) in
      if n \<le> 0 then [] else drop (length xs - nat n) xs)"

text \<open>A run of \<open>update\<close> calls, one per (value, timestamp) pair, in order.\<close>

fun updates :: "IndicatorSeries \<Rightarrow> (real \<times> datetime) list \<Rightarrow> IndicatorSeries" where
  "updates s [] = s"
| "updates s ((v, ts) # ps) = updates (update s v ts) ps"

section \<open>File tailer (file\_stream.py)\<close>

text \<open>
  \<open>ParsedAlert\<close> of alert\_parser.py: the four numeric fields are those of \<open>rec\<close>, the
  others follow. Timestamps are naive datetimes of second resolution, which compare as the
  numbers of seconds they stand for.
\<close>

record ParsedAlert = rec +
  symbol :: string
  ts :: datetime
  alert_id :: int

text \<open>
  The tailer object. \<open>pos\<close> and \<open>last_ts\<close> are the attributes \<open>_pos\<close> and \<open>_last_ts\<close>;
  \<open>tailer_symbol\<close> is the attribute \<open>symbol\<close>.
\<close>

record FileTailer =
  filepath :: string
  tailer_symbol :: string
  pos :: nat
  last_ts :: "datetime option"

definition FileTailer_init :: "string \<Rightarrow> string \<Rightarrow> FileTailer" where
  "FileTailer_init path symb = \<lparr>filepath = path, tailer_symbol = symb, pos = 0, last_ts = None\<rparr>"

text \<open>
  Iterating a file opened in text mode: lines end at LF, CR or CR LF (universal newlines),
  each line is handed over with its terminator translated to LF, and a last line without a
  terminator is handed over as it is. The content is taken to be ASCII, one byte per
  character, so that byte offsets and character positions agree.
\<close>

fun readlines_from :: "string \<Rightarrow> string \<Rightarrow> string list" where
  "readlines_from acc [] = (if acc = [] then [] else [acc])"
| "readlines_from acc (c # cs) =
     (if c = CHR 0x0A then (acc @ [CHR 0x0A]) # readlines_from [] cs
      else if c = CHR 0x0D then
        (acc @ [CHR 0x0A]) #
          (case cs of
             [] \<Rightarrow> []
           | d # ds \<Rightarrow> if d = CHR 0x0A then readlines_from [] ds else readlines_from [] cs)
      else readlines_from (acc @ [c]) cs)"

definition readlines :: "string \<Rightarrow> string list" where
  "readlines content = readlines_from [] content"

text \<open>
  The body of \<open>for line in f\<close>. \<open>parse_alert_line\<close> is a regular-expression match over the
  line; \<open>follow\<close> uses only its result, so the parser is a parameter \<open>parse\<close> here and every
  statement below holds for each parser. The result is the new watermark and the records
  yielded for this line.
\<close>

definition process_line ::
  "(string \<Rightarrow> ParsedAlert option) \<Rightarrow> string \<Rightarrow> datetime option \<Rightarrow> string
     \<Rightarrow> datetime option \<times> ParsedAlert list" where
  "process_line parse symb w line =
     (case parse line of
        None \<Rightarrow> (w, [])
      | Some alert \<Rightarrow>
          if symbol alert = symb then
            (case w of
               None \<Rightarrow> (Some (ts alert), [alert])
             | Some t \<Rightarrow> if ts alert > t then (Some (ts alert), [alert]) else (w, []))
          else (w, []))"

fun process_lines ::
  "(string \<Rightarrow> ParsedAlert option) \<Rightarrow> string \<Rightarrow> datetime option \<Rightarrow> string list
     \<Rightarrow> datetime option \<times> ParsedAlert list" where
  "process_lines parse symb w [] = (w, [])"
| "process_lines parse symb w (l # ls) =
     (case process_line parse symb w l of
        (w1, out1) \<Rightarrow>
          (case process_lines parse symb w1 ls of (w2, out2) \<Rightarrow> (w2, out1 @ out2)))"

text \<open>\<open>if size < self._pos: self._pos = 0\<close>\<close>

definition check_truncated :: "FileTailer \<Rightarrow> nat \<Rightarrow> FileTailer" where
  "check_truncated t sz = (if sz < pos t then t\<lparr>pos := 0\<rparr> else t)"

text \<open>
  \<open>if size > self._pos\<close>: seek to the cursor, run the loop body over the lines up to the end
  of the file, then set the cursor to \<open>f.tell()\<close>, the end of what was read.
\<close>

definition read_delta ::
  "(string \<Rightarrow> ParsedAlert option) \<Rightarrow> FileTailer \<Rightarrow> nat \<Rightarrow> string
     \<Rightarrow> FileTailer \<times> ParsedAlert list" where
  "read_delta parse t sz content =
     (if sz > pos t then
        (case process_lines parse (tailer_symbol t) (last_ts t) (readlines (drop (pos t) content)) of
           (w, out) \<Rightarrow> (t\<lparr>pos := length content, last_ts := w\<rparr>, out))
      else (t, []))"

text \<open>
  One pass of the \<open>while True\<close> loop. The file is observed once per pass: \<open>None\<close> when it does
  not exist (\<open>FileNotFoundError\<close>, passed over), otherwise its content, whose length is the
  size that \<open>os.path.getsize\<close> returns.
\<close>

definition poll_tick ::
  "(string \<Rightarrow> ParsedAlert option) \<Rightarrow> FileTailer \<Rightarrow> string option
     \<Rightarrow> FileTailer \<times> ParsedAlert list" where
  "poll_tick parse t file =
     (case file of
        None \<Rightarrow> (t, [])
      | Some content \<Rightarrow> read_delta parse (check_truncated t (length content)) (length content) content)"

fun poll_ticks ::
  "(string \<Rightarrow> ParsedAlert option) \<Rightarrow> FileTailer \<Rightarrow> string option list
     \<Rightarrow> FileTailer \<times> ParsedAlert list" where
  "poll_ticks parse t [] = (t, [])"
| "poll_ticks parse t (file # files) =
     (case poll_tick parse t file of
        (t1, out1) \<Rightarrow>
          (case poll_ticks parse t1 files of (t2, out2) \<Rightarrow> (t2, out1 @ out2)))"

text \<open>
  The start of \<open>follow\<close>: wait until the file exists, then put the cursor at its end. The
  observations consumed while waiting are dropped; \<open>None\<close> when the file never appeared.
\<close>

fun follow_start :: "FileTailer \<Rightarrow> string option list \<Rightarrow> (FileTailer \<times> string option list) option" where
  "follow_start t [] = None"
| "follow_start t (None # files) = follow_start t files"
| "follow_start t (Some content # files) = Some (t\<lparr>pos := length content\<rparr>, files)"

text \<open>
  \<open>follow\<close> never returns. Its run over a finite list of observations of the file, one per
  look at the file system, gives the tailer after them and the records yielded so far.
\<close>

definition follow ::
  "(string \<Rightarrow> ParsedAlert option) \<Rightarrow> FileTailer \<Rightarrow> string option list
     \<Rightarrow> FileTailer \<times> ParsedAlert list" where
  "follow parse t files =
     (case follow_start t files of
        None \<Rightarrow> (t, [])
      | Some (t0, rest) \<Rightarrow> poll_ticks parse t0 rest)"


section \<open>Trading engine (src/common/trading\_engine.py)\<close>

text \<open>
  Modelled from the spec: the class \<open>SymbolInfo\<close> of the module \<open>src.common.symbol_info\<close>,
  which is not among the sources. The fields are those of the spec's SymbolState in its
  engine variant, together with the ones \<open>evaluate_trade\<close> reads (\<open>symbol\<close>, named
  \<open>info_symbol\<close> here, \<open>trade_quantity\<close>, the webhook address behind \<open>get_webhook_url()\<close>) and
  the current price that \<open>update_current_price\<close> stores. The sides are the strings the
  engine compares them with.
\<close>

record SymbolInfo =
  info_symbol :: string
  info_webhook_url :: string
  trade_quantity :: int
  last_trade_side :: "string option"
  expected_trade_side :: string
  is_blocked :: bool
  realized_pnl :: real
  unrealized_pnl :: real
  trade_count :: nat
  last_trade_price :: "real option"
  info_current_price :: "real option"

text \<open>
  Modelled from the spec: what the spec leaves open about \<open>SymbolInfoManager\<close>. The spec
  names the updates of realized and unrealized PnL without giving their formulas, and it
  calls the rule behind \<open>update_is_blocked\<close> a pluggable risk policy that is not fully
  defined. The three are parameters of the model, each a function of the symbol's state, and
  every statement about the engine holds for all of them.
\<close>

record risk_policy =
  realized_rule :: "SymbolInfo \<Rightarrow> real"
  unrealized_rule :: "SymbolInfo \<Rightarrow> real"
  block_rule :: "SymbolInfo \<Rightarrow> bool"

text \<open>
  Modelled from the spec: \<open>SymbolInfoManager\<close> of \<open>src.common.symbol_info\<close>, which is not
  among the sources. It holds one \<open>SymbolInfo\<close> per symbol, in the order of \<open>symbols()\<close>; each
  update writes the field it is named after, for the symbol given. \<open>is_blocked\<close> is monotonic
  (once true, never reset within a run), so \<open>update_is_blocked\<close> can only set it.
\<close>

type_synonym manager = "(string \<times> SymbolInfo) list"

definition symbols :: "manager \<Rightarrow> string list" where
  "symbols m = map fst m"

definition get_info :: "manager \<Rightarrow> string \<Rightarrow> SymbolInfo option" where
  "get_info m symb = map_of m symb"

definition update_info :: "string \<Rightarrow> (SymbolInfo \<Rightarrow> SymbolInfo) \<Rightarrow> manager \<Rightarrow> manager" where
  "update_info symb f m = map (\<lambda>(k, i). if k = symb then (k, f i) else (k, i)) m"

definition update_current_price :: "string \<Rightarrow> real \<Rightarrow> manager \<Rightarrow> manager" where
  "update_current_price symb p = update_info symb (\<lambda>i. i\<lparr>info_current_price := Some p\<rparr>)"

definition update_realized_pnl :: "risk_policy \<Rightarrow> string \<Rightarrow> manager \<Rightarrow> manager" where
  "update_realized_pnl pol symb = update_info symb (\<lambda>i. i\<lparr>realized_pnl := realized_rule pol i\<rparr>)"

definition set_unrealized_pnl :: "string \<Rightarrow> real \<Rightarrow> manager \<Rightarrow> manager" where
  "set_unrealized_pnl symb v = update_info symb (\<lambda>i. i\<lparr>unrealized_pnl := v\<rparr>)"

definition update_unrealized_pnl :: "risk_policy \<Rightarrow> string \<Rightarrow> manager \<Rightarrow> manager" where
  "update_unrealized_pnl pol symb =
     update_info symb (\<lambda>i. i\<lparr>unrealized_pnl := unrealized_rule pol i\<rparr>)"

definition update_trade_count :: "string \<Rightarrow> manager \<Rightarrow> manager" where
  "update_trade_count symb = update_info symb (\<lambda>i. i\<lparr>trade_count := Suc (trade_count i)\<rparr>)"

definition update_last_trade_price :: "string \<Rightarrow> real \<Rightarrow> manager \<Rightarrow> manager" where
  "update_last_trade_price symb p = update_info symb (\<lambda>i. i\<lparr>last_trade_price := Some p\<rparr>)"

definition update_last_trade_side :: "string \<Rightarrow> string \<Rightarrow> manager \<Rightarrow> manager" where
  "update_last_trade_side symb s = update_info symb (\<lambda>i. i\<lparr>last_trade_side := Some s\<rparr>)"

definition update_expected_trade_side :: "string \<Rightarrow> string \<Rightarrow> manager \<Rightarrow> manager" where
  "update_expected_trade_side symb s = update_info symb (\<lambda>i. i\<lparr>expected_trade_side := s\<rparr>)"

definition update_is_blocked :: "risk_policy \<Rightarrow> string \<Rightarrow> manager \<Rightarrow> manager" where
  "update_is_blocked pol symb =
     update_info symb (\<lambda>i. i\<lparr>is_blocked := (is_blocked i \<or> block_rule pol i)\<rparr>)"

text \<open>
  What \<open>FilePriceTracker\<close> (not among the sources) answers for one symbol after a
  \<open>poll()\<close>: \<open>price_changed\<close>, \<open>current_price\<close> and \<open>previous_price\<close>. A tracker state maps each
  symbol to such an answer; it is an input of the engine.
\<close>

record price_obs =
  price_changed :: bool
  current_price :: real
  previous_price :: "real option"

type_synonym price_tracker = "string \<Rightarrow> price_obs"

text \<open>
  The keyword arguments of a call of \<open>send_trade_alert_by_sentiment\<close>, the order gateway
  (not among the sources; an external collaborator). The engine ignores what the call
  returns, so the gateway is modelled by whether the call returns (\<open>True\<close>) or raises
  (\<open>False\<close>); nothing in \<open>evaluate_trade\<close> or \<open>run\<close> catches such an exception.
\<close>

record signal =
  webhook_url :: string
  ticker :: string
  action :: string
  sentiment :: "string option"
  quantity :: "int option"

type_synonym gateway = "signal \<Rightarrow> bool"

datatype engine_error = GatewayRaised | MissingSymbolInfo

text \<open>
  The result of a piece of the engine: the manager as the calls made so far left it, the
  gateway calls attempted, in order, and the exception that ended the piece, if any.
\<close>

type_synonym engine_result = "manager \<times> signal list \<times> engine_error option"

text \<open>Lines 95 to 101 (buy) and 138 to 144 (sell): the seven updates after the alert.\<close>

definition trade_updates ::
  "risk_policy \<Rightarrow> string \<Rightarrow> real \<Rightarrow> string \<Rightarrow> string \<Rightarrow> manager \<Rightarrow> manager" where
  "trade_updates pol symb new_price side next_side m =
     update_is_blocked pol symb
       (update_expected_trade_side symb next_side
         (update_last_trade_side symb side
           (update_unrealized_pnl pol symb
             (update_last_trade_price symb new_price
               (update_trade_count symb
                 (update_realized_pnl pol symb m))))))"

text \<open>
  Lines 102 to 114 and 145 to 157: fetch the state again and, when it is blocked, send the
  exit alert. \<open>sent\<close> are the gateway calls made before.
\<close>

definition send_exit_if_blocked ::
  "gateway \<Rightarrow> SymbolInfo \<Rightarrow> string \<Rightarrow> signal list \<Rightarrow> manager \<Rightarrow> engine_result" where
  "send_exit_if_blocked gw info symb sent m =
     (case get_info m symb of
        None \<Rightarrow> (m, sent, Some MissingSymbolInfo)
      | Some info2 \<Rightarrow>
          if is_blocked info2 then
            (let e = \<lparr>webhook_url = info_webhook_url info, ticker = info_symbol info,
                      action = ''exit'', sentiment = None, quantity = None\<rparr>
             in if gw e then (m, sent @ [e], None) else (m, sent @ [e], Some GatewayRaised))
          else (m, sent, None))"

text \<open>
  Lines 87 to 114 and 130 to 157 (\<open>is_debug_on\<close> is \<open>False\<close>): the trade alert goes to the
  gateway first; the updates and the exit check follow when the call has returned.
\<close>

definition execute_trade ::
  "risk_policy \<Rightarrow> gateway \<Rightarrow> SymbolInfo \<Rightarrow> string \<Rightarrow> real \<Rightarrow> string \<Rightarrow> string \<Rightarrow> string
     \<Rightarrow> manager \<Rightarrow> engine_result" where
  "execute_trade pol gw info symb new_price side mood next_side m =
     (let s = \<lparr>webhook_url = info_webhook_url info, ticker = info_symbol info,
               action = side, sentiment = Some mood, quantity = Some (trade_quantity info)\<rparr>
      in if gw s
         then send_exit_if_blocked gw info symb [s] (trade_updates pol symb new_price side next_side m)
         else (m, [s], Some GatewayRaised))"

text \<open>
  \<open>evaluate_trade\<close>. \<open>info\<close> is the object the manager holds for the symbol; the fields read
  from it below (\<open>unrealized_pnl\<close>, \<open>is_blocked\<close>, the sides, the webhook, the quantity) are
  written neither by \<open>update_current_price\<close> nor, before they are read, by any other call,
  so reading them from the state at line 63 is reading them where the source does.
  \<open>previous_price(symbol) or 0.0\<close> is 0 for \<open>None\<close> and for 0.
\<close>

definition evaluate_trade ::
  "risk_policy \<Rightarrow> gateway \<Rightarrow> price_tracker \<Rightarrow> manager \<Rightarrow> string \<Rightarrow> engine_result" where
  "evaluate_trade pol gw tracker m symb =
     (if \<not> price_changed (tracker symb) then (m, [], None)
      else
        let new_price = current_price (tracker symb);
            old_price = (case previous_price (tracker symb) of None \<Rightarrow> 0 | Some p \<Rightarrow> p)
        in case get_info m symb of
             None \<Rightarrow> (m, [], Some MissingSymbolInfo)
           | Some info \<Rightarrow>
               let m1 = update_current_price symb new_price m in
               if unrealized_pnl info \<ge> 2 then
                 (update_is_blocked pol symb
                    (set_unrealized_pnl symb 0 (update_realized_pnl pol symb m1)), [], None)
               else if \<not> is_blocked info then
                 if new_price > old_price \<and> old_price \<noteq> 0 then
                   if last_trade_side info \<noteq> Some ''buy'' \<and> expected_trade_side info = ''buy''
                   then execute_trade pol gw info symb new_price ''buy'' ''bullish'' ''sell'' m1
                   else (update_last_trade_side symb ''buy'' (update_unrealized_pnl pol symb m1),
                         [], None)
                 else if new_price < old_price \<and> old_price \<noteq> 0 then
                   let m2 = update_is_blocked pol symb m1 in
                   if last_trade_side info \<noteq> Some ''sell'' \<and> expected_trade_side info = ''sell''
                   then execute_trade pol gw info symb new_price ''sell'' ''bearish'' ''buy'' m2
                   else (update_last_trade_side symb ''sell'' (update_unrealized_pnl pol symb m2),
                         [], None)
                 else (m1, [], None)
               else (m1, [], None))"

text \<open>
  The \<open>for symbol in self.manager.symbols()\<close> loop of \<open>run\<close> for one poll: a blocked symbol
  is skipped, the others are evaluated. Each gateway call is recorded with the symbol it
  was made for. An exception ends the loop.
\<close>

fun run_symbols ::
  "risk_policy \<Rightarrow> gateway \<Rightarrow> price_tracker \<Rightarrow> manager \<Rightarrow> string list
     \<Rightarrow> manager \<times> (string \<times> signal) list \<times> engine_error option" where
  "run_symbols pol gw tracker m [] = (m, [], None)"
| "run_symbols pol gw tracker m (symb # rest) =
     (case get_info m symb of
        None \<Rightarrow> (m, [], Some MissingSymbolInfo)
      | Some info \<Rightarrow>
          if is_blocked info then run_symbols pol gw tracker m rest
          else
            (case evaluate_trade pol gw tracker m symb of
               (m1, sigs, Some e) \<Rightarrow> (m1, map (Pair symb) sigs, Some e)
             | (m1, sigs, None) \<Rightarrow>
                 (case run_symbols pol gw tracker m1 rest of
                    (m2, sigs2, err) \<Rightarrow> (m2, map (Pair symb) sigs @ sigs2, err))))"

text \<open>
  \<open>run\<close> never returns by itself. Its run over a finite list of tracker states, one per
  \<open>poll()\<close>, gives the manager after them and the gateway calls made; an exception ends it.
\<close>

fun run ::
  "risk_policy \<Rightarrow> gateway \<Rightarrow> manager \<Rightarrow> price_tracker list
     \<Rightarrow> manager \<times> (string \<times> signal) list \<times> engine_error option" where
  "run pol gw m [] = (m, [], None)"
| "run pol gw m (tracker # polls) =
     (case run_symbols pol gw tracker m (symbols m) of
        (m1, sigs, Some e) \<Rightarrow> (m1, sigs, Some e)
      | (m1, sigs, None) \<Rightarrow>
          (case run pol gw m1 polls of (m2, sigs2, err) \<Rightarrow> (m2, sigs @ sigs2, err)))"

section \<open>Properties of the trend classifiers\<close>

text \<open>
  Claim C7. \<open>trend_of\<close> depends on \<open>sma20\<close>, \<open>ema20\<close> and \<open>ema9\<close> only (changing the price
  changes nothing). It answers DOWN exactly when \<open>sma20 > ema20 > ema9\<close>, UP exactly when
  \<open>sma20 < ema20 < ema9\<close>, and the neutral answer (\<open>None\<close>) in every other case, in
  particular whenever two neighbouring averages are equal. On (10, 11, 12) it answers UP,
  on (12, 11, 10) DOWN, on (11, 11, 11) neutral.
\<close>

theorem trend_of_classifies:
  "(trend_of r = Some DOWN) = (sma20 r > ema20 r \<and> ema20 r > ema9 r)
   \<and> (trend_of r = Some UP) = (sma20 r < ema20 r \<and> ema20 r < ema9 r)
   \<and> (trend_of r = None) = (\<not> (sma20 r > ema20 r \<and> ema20 r > ema9 r) \<and> \<not> (sma20 r < ema20 r \<and> ema20 r < ema9 r))
   \<and> trend_of (r\<lparr>ema20 := sma20 r\<rparr>) = None
   \<and> trend_of (r\<lparr>ema9 := ema20 r\<rparr>) = None
   \<and> trend_of (r\<lparr>price := p\<rparr>) = trend_of r
   \<and> trend_of \<lparr>price = p, sma20 = 10, ema20 = 11, ema9 = 12\<rparr> = Some UP
   \<and> trend_of \<lparr>price = p, sma20 = 12, ema20 = 11, ema9 = 10\<rparr> = Some DOWN
   \<and> trend_of \<lparr>price = p, sma20 = 11, ema20 = 11, ema9 = 11\<rparr> = None"
  by (auto simp: trend_of_def is_uptrend_def is_downtrend_def)

text \<open>
  Claim C8. The two trend strategies disagree on some input: there are a price and averages
  with \<open>sma20 < ema20 < ema9\<close> and \<open>price < ema9\<close> on which \<open>trend_of\<close> answers UP and
  \<open>derive_trend\<close> answers neutral.
\<close>

theorem trend_strategies_disagree:
  "\<exists>p s20 e20 e9. s20 < e20 \<and> e20 < e9 \<and> p < e9
     \<and> trend_of \<lparr>price = p, sma20 = s20, ema20 = e20, ema9 = e9\<rparr> = Some UP
     \<and> derive_trend p e9 e20 s20 = ''neutral''"
proof -
  have "(10::real) < 11 \<and> (11::real) < 12 \<and> (11::real) < 12
     \<and> trend_of \<lparr>price = 11, sma20 = 10, ema20 = 11, ema9 = 12\<rparr> = Some UP
     \<and> derive_trend 11 12 11 10 = ''neutral''"
    by (simp add: trend_of_def is_uptrend_def derive_trend_def)
  then show ?thesis by blast
qed

section \<open>Properties of the indicator series\<close>

lemma deque_append_bounded_items:
  "dq_maxlen d = Some m \<Longrightarrow> length (items d) \<le> m \<Longrightarrow>
     items (deque_append d x) = drop (Suc (length (items d)) - m) (items d @ [x])"
  by (auto simp: deque_append_def)

lemma deque_append_maxlen: "dq_maxlen (deque_append d x) = dq_maxlen d"
  by (auto simp: deque_append_def split: option.splits)

lemma foldl_deque_append_maxlen: "dq_maxlen (foldl deque_append d xs) = dq_maxlen d"
  by (induction xs arbitrary: d) (simp_all add: deque_append_maxlen)

lemma drop_suffix_step:
  assumes "k \<le> length ys"
  shows "drop (length (drop k ys) + length xs - m) (drop k ys @ xs)
           = drop (length ys - k + length xs - m + k) (ys @ xs)"
proof -
  have "drop k ys @ xs = drop k (ys @ xs)" using assms by simp
  then show ?thesis by (simp only: drop_drop length_drop)
qed

lemma foldl_deque_append_items:
  "dq_maxlen d = Some m \<Longrightarrow> length (items d) \<le> m \<Longrightarrow>
     items (foldl deque_append d xs) = drop (length (items d) + length xs - m) (items d @ xs)"
proof (induction xs arbitrary: d)
  case Nil
  then show ?case by simp
next
  case (Cons x xs)
  let ?d = "deque_append d x"
  let ?k = "Suc (length (items d)) - m"
  let ?ys = "items d @ [x]"
  have i: "items ?d = drop ?k ?ys"
    using Cons.prems by (rule deque_append_bounded_items)
  have m: "dq_maxlen ?d = Some m" using Cons.prems by (simp add: deque_append_maxlen)
  have l: "length (items ?d) \<le> m" using Cons.prems by (simp add: i)
  have k: "?k \<le> length ?ys" by simp
  have n: "length ?ys - ?k + length xs - m + ?k = length (items d) + length (x # xs) - m"
    using Cons.prems by simp
  have "items (foldl deque_append ?d xs) = drop (length (items ?d) + length xs - m) (items ?d @ xs)"
    using Cons.IH [OF m l] .
  also have "\<dots> = drop (length ?ys - ?k + length xs - m + ?k) (?ys @ xs)"
    unfolding i using k by (rule drop_suffix_step)
  also have "\<dots> = drop (length (items d) + length (x # xs) - m) (items d @ x # xs)"
    unfolding n by simp
  finally show ?case by simp
qed

lemma updates_values: "values_dq (updates s ps) = foldl deque_append (values_dq s) (map fst ps)"
  by (induction s ps rule: updates.induct) (simp_all add: update_def)

lemma updates_init_items:
  "items (values_dq (updates (IndicatorSeries_init k) ps)) = drop (length ps - 200) (map fst ps)"
  using foldl_deque_append_items [of "deque_new (Some 200)" 200 "map fst ps"]
  by (simp add: updates_values IndicatorSeries_init_def deque_new_def)

text \<open>
  Claim C6. A series constructed as \<open>IndicatorSeries(maxlen=2048)\<close>, the way \<open>Indicator\<close>
  does, holds its values in a deque of bound 200. After 2049 updates with the values
  0, 1, ..., 2048, \<open>last_n(2048)\<close> returns the 200 values 1849, ..., 2048 and not the 2048
  most recent ones.
\<close>

theorem last_n_capacity_2048_gives_200:
  "last_n (updates (IndicatorSeries_init 2048) (map (\<lambda>i. (real i, i)) [0..<2049])) 2048
     = map real [1849..<2049]"
  by (simp add: last_n_def updates_init_items drop_map comp_def)

lemma nat_int_diff: "0 < n \<Longrightarrow> nat (int l - n) = l - nat n"
  by arith

lemma prev_in_range:
  assumes "0 < n" and "n \<le> int (length (items (values_dq s)))"
  shows "prev s n = Some (rev (items (values_dq s)) ! (nat n - 1))"
proof -
  let ?xs = "items (values_dq s)"
  have lt: "nat n - 1 < length ?xs" using assms by arith
  have "rev ?xs ! (nat n - 1) = ?xs ! (length ?xs - Suc (nat n - 1))"
    using lt by (rule rev_nth)
  also have "length ?xs - Suc (nat n - 1) = nat (int (length ?xs) - n)"
    using assms by arith
  finally show ?thesis using assms by (simp add: prev_def Let_def)
qed

lemma prev_one_current: "prev s 1 = current s"
proof (cases "items (values_dq s) = []")
  case True
  then show ?thesis by (simp add: prev_def current_def)
next
  case False
  then have "1 \<le> int (length (items (values_dq s)))"
    by (cases "items (values_dq s)") simp_all
  then have "prev s 1 = Some (rev (items (values_dq s)) ! 0)"
    using prev_in_range [of 1 s] by simp
  then show ?thesis using False by (simp add: current_def last_conv_nth rev_nth)
qed

text \<open>
  Claim C10. \<open>prev(1)\<close> is \<open>current()\<close>; \<open>prev(n)\<close> is \<open>None\<close> exactly when \<open>n \<le> 0\<close> or \<open>n\<close>
  exceeds the number of stored values; otherwise it is the \<open>n\<close>-th most recent value,
  counting the latest as the first.
\<close>

theorem prev_nth_most_recent:
  "prev s 1 = current s
   \<and> (\<forall>n. (prev s n = None) = (n \<le> 0 \<or> n > int (length (items (values_dq s)))))
   \<and> (\<forall>n. 0 < n \<and> n \<le> int (length (items (values_dq s)))
          \<longrightarrow> prev s n = Some (rev (items (values_dq s)) ! (nat n - 1)))"
proof (intro conjI allI impI)
  show "prev s 1 = current s" by (rule prev_one_current)
next
  fix n
  show "(prev s n = None) = (n \<le> 0 \<or> n > int (length (items (values_dq s))))"
    by (simp add: prev_def Let_def)
next
  fix n
  assume "0 < n \<and> n \<le> int (length (items (values_dq s)))"
  then show "prev s n = Some (rev (items (values_dq s)) ! (nat n - 1))"
    by (simp add: prev_in_range)
qed

theorem prev_nth_most_recent_witness:
  "prev (updates (IndicatorSeries_init 2048) [(5, 1), (6, 2), (7, 3)]) 1
     = current (updates (IndicatorSeries_init 2048) [(5, 1), (6, 2), (7, 3)])
   \<and> prev (updates (IndicatorSeries_init 2048) [(5, 1), (6, 2), (7, 3)]) 2 = Some 6
   \<and> prev (updates (IndicatorSeries_init 2048) [(5, 1), (6, 2), (7, 3)]) 4 = None"
proof -
  let ?s = "updates (IndicatorSeries_init 2048) [(5, 1), (6, 2), (7, 3)]"
  have xs: "items (values_dq ?s) = [5, 6, 7]"
    by (simp add: update_def IndicatorSeries_init_def deque_new_def deque_append_def)
  note t = prev_nth_most_recent [of ?s, unfolded xs]
  from t have 1: "prev ?s 1 = current ?s" by blast
  from t have "0 < (2::int) \<and> 2 \<le> int (length [5, 6, 7::real])
      \<longrightarrow> prev ?s 2 = Some (rev [5, 6, 7] ! (nat 2 - 1))" by blast
  then have 2: "prev ?s 2 = Some 6" by simp
  from t have "(prev ?s 4 = None) = (4 \<le> (0::int) \<or> 4 > int (length [5, 6, 7::real]))" by blast
  then have 3: "prev ?s 4 = None" by simp
  from 1 2 3 show ?thesis by blast
qed

section \<open>Properties of the file tailer\<close>

lemma process_line_symbol:
  "process_line parse symb w l = (w', out) \<Longrightarrow> a \<in> set out \<Longrightarrow> symbol a = symb"
  by (auto simp: process_line_def split: option.splits if_splits)

lemma process_lines_symbol:
  "process_lines parse symb w ls = (w', out) \<Longrightarrow> a \<in> set out \<Longrightarrow> symbol a = symb"
proof (induction ls arbitrary: w w' out)
  case Nil
  then show ?case by simp
next
  case (Cons l ls)
  obtain w1 out1 where 1: "process_line parse symb w l = (w1, out1)" by (cases "process_line parse symb w l")
  obtain w2 out2 where 2: "process_lines parse symb w1 ls = (w2, out2)" by (cases "process_lines parse symb w1 ls")
  from Cons.prems(1) 1 2 have "out = out1 @ out2" by simp
  with Cons.prems(2) have "a \<in> set out1 \<or> a \<in> set out2" by simp
  then show ?case using process_line_symbol [OF 1] Cons.IH [OF 2] by blast
qed

lemma check_truncated_fields:
  "tailer_symbol (check_truncated t sz) = tailer_symbol t"
  "last_ts (check_truncated t sz) = last_ts t"
  by (simp_all add: check_truncated_def)

lemma read_delta_symbol:
  "read_delta parse t sz content = (t', out) \<Longrightarrow>
     tailer_symbol t' = tailer_symbol t \<and> (\<forall>a\<in>set out. symbol a = tailer_symbol t)"
  by (auto simp: read_delta_def split: if_splits prod.splits dest: process_lines_symbol)

lemma poll_tick_symbol:
  "poll_tick parse t f = (t', out) \<Longrightarrow>
     tailer_symbol t' = tailer_symbol t \<and> (\<forall>a\<in>set out. symbol a = tailer_symbol t)"
  by (cases f) (auto simp: poll_tick_def check_truncated_fields dest!: read_delta_symbol)

lemma poll_ticks_symbol:
  "poll_ticks parse t files = (t', out) \<Longrightarrow>
     tailer_symbol t' = tailer_symbol t \<and> (\<forall>a\<in>set out. symbol a = tailer_symbol t)"
proof (induction files arbitrary: t t' out)
  case Nil
  then show ?case by simp
next
  case (Cons f fs)
  obtain t1 out1 where 1: "poll_tick parse t f = (t1, out1)" by (cases "poll_tick parse t f")
  obtain t2 out2 where 2: "poll_ticks parse t1 fs = (t2, out2)" by (cases "poll_ticks parse t1 fs")
  from Cons.prems 1 2 have e: "t' = t2" "out = out1 @ out2" by simp_all
  from poll_tick_symbol [OF 1] Cons.IH [OF 2] e show ?case by auto
qed

lemma follow_start_symbol:
  "follow_start t files = Some (t0, rest) \<Longrightarrow> tailer_symbol t0 = tailer_symbol t \<and> last_ts t0 = last_ts t"
  by (induction t files rule: follow_start.induct) auto

lemma follow_symbol:
  "follow parse t files = (t', out) \<Longrightarrow>
     tailer_symbol t' = tailer_symbol t \<and> (\<forall>a\<in>set out. symbol a = tailer_symbol t)"
  by (auto simp: follow_def split: option.splits dest!: follow_start_symbol poll_ticks_symbol)









lemma process_lines_foreign:
  "\<forall>l\<in>set ls. \<exists>a. parse l = Some a \<and> symbol a \<noteq> symb \<Longrightarrow>
     process_lines parse symb w ls = (w, [])"
  by (induction ls) (auto simp: process_line_def)

text \<open>
  Claim C9. Every record yielded by \<open>follow\<close> has the tailer's symbol. A line that parses to
  a record of another symbol yields nothing and leaves the watermark as it is; a pass that
  reads only such lines yields nothing, keeps the watermark and still moves the cursor to the
  end of the file.
\<close>

theorem follow_yields_own_symbol_only:
  assumes "follow parse t0 files = (t, out)"
  shows "(\<forall>a\<in>set out. symbol a = tailer_symbol t0)
     \<and> (\<forall>line a w. parse line = Some a \<and> symbol a \<noteq> tailer_symbol t0
           \<longrightarrow> process_line parse (tailer_symbol t0) w line = (w, []))
     \<and> (\<forall>content. pos t < length content
           \<and> (\<forall>l\<in>set (readlines (drop (pos t) content)).
                 \<exists>a. parse l = Some a \<and> symbol a \<noteq> tailer_symbol t)
           \<longrightarrow> poll_tick parse t (Some content) = (t\<lparr>pos := length content\<rparr>, []))"
proof (intro conjI allI impI)
  show "\<forall>a\<in>set out. symbol a = tailer_symbol t0"
    using follow_symbol [OF assms] by blast
next
  fix line a w
  assume "parse line = Some a \<and> symbol a \<noteq> tailer_symbol t0"
  then show "process_line parse (tailer_symbol t0) w line = (w, [])"
    by (simp add: process_line_def)
next
  fix content
  assume h: "pos t < length content
           \<and> (\<forall>l\<in>set (readlines (drop (pos t) content)).
                 \<exists>a. parse l = Some a \<and> symbol a \<noteq> tailer_symbol t)"
  then have "process_lines parse (tailer_symbol t) (last_ts t) (readlines (drop (pos t) content))
      = (last_ts t, [])"
    by (simp add: process_lines_foreign)
  with h show "poll_tick parse t (Some content) = (t\<lparr>pos := length content\<rparr>, [])"
    by (simp add: poll_tick_def check_truncated_def read_delta_def)
qed




theorem follow_yields_own_symbol_only_witness:
  "follow (\<lambda>l. if l = ''p\<newline>'' then Some \<lparr>price = 100, sma20 = 99, ema20 = 99, ema9 = 99, symbol = ''AAPL'', ts = 5, alert_id = 1\<rparr> else if l = ''q\<newline>'' then Some \<lparr>price = 101, sma20 = 99, ema20 = 99, ema9 = 99, symbol = ''AAPL'', ts = 3, alert_id = 2\<rparr> else if l = ''r\<newline>'' then Some \<lparr>price = 50, sma20 = 49, ema20 = 49, ema9 = 49, symbol = ''MSFT'', ts = 9, alert_id = 1\<rparr> else None) (FileTailer_init ''f'' ''AAPL'') [Some [], Some ''r\<newline>p\<newline>'']
      = (\<lparr>filepath = ''f'', tailer_symbol = ''AAPL'', pos = 4, last_ts = Some 5\<rparr>, [\<lparr>price = 100, sma20 = 99, ema20 = 99, ema9 = 99, symbol = ''AAPL'', ts = 5, alert_id = 1\<rparr>])
   \<and> symbol \<lparr>price = 100, sma20 = 99, ema20 = 99, ema9 = 99, symbol = ''AAPL'', ts = 5, alert_id = 1\<rparr> = ''AAPL''
   \<and> process_line (\<lambda>l. if l = ''p\<newline>'' then Some \<lparr>price = 100, sma20 = 99, ema20 = 99, ema9 = 99, symbol = ''AAPL'', ts = 5, alert_id = 1\<rparr> else if l = ''q\<newline>'' then Some \<lparr>price = 101, sma20 = 99, ema20 = 99, ema9 = 99, symbol = ''AAPL'', ts = 3, alert_id = 2\<rparr> else if l = ''r\<newline>'' then Some \<lparr>price = 50, sma20 = 49, ema20 = 49, ema9 = 49, symbol = ''MSFT'', ts = 9, alert_id = 1\<rparr> else None) ''AAPL'' (Some 5) ''r\<newline>'' = (Some 5, [])
   \<and> poll_tick (\<lambda>l. if l = ''p\<newline>'' then Some \<lparr>price = 100, sma20 = 99, ema20 = 99, ema9 = 99, symbol = ''AAPL'', ts = 5, alert_id = 1\<rparr> else if l = ''q\<newline>'' then Some \<lparr>price = 101, sma20 = 99, ema20 = 99, ema9 = 99, symbol = ''AAPL'', ts = 3, alert_id = 2\<rparr> else if l = ''r\<newline>'' then Some \<lparr>price = 50, sma20 = 49, ema20 = 49, ema9 = 49, symbol = ''MSFT'', ts = 9, alert_id = 1\<rparr> else None) \<lparr>filepath = ''f'', tailer_symbol = ''AAPL'', pos = 4, last_ts = Some 5\<rparr> (Some ''r\<newline>p\<newline>r\<newline>'') = (\<lparr>filepath = ''f'', tailer_symbol = ''AAPL'', pos = 6, last_ts = Some 5\<rparr>, [])"
proof -
  let ?parse = "(\<lambda>l. if l = ''p\<newline>'' then Some \<lparr>price = 100, sma20 = 99, ema20 = 99, ema9 = 99, symbol = ''AAPL'', ts = 5, alert_id = 1\<rparr> else if l = ''q\<newline>'' then Some \<lparr>price = 101, sma20 = 99, ema20 = 99, ema9 = 99, symbol = ''AAPL'', ts = 3, alert_id = 2\<rparr> else if l = ''r\<newline>'' then Some \<lparr>price = 50, sma20 = 49, ema20 = 49, ema9 = 49, symbol = ''MSFT'', ts = 9, alert_id = 1\<rparr> else None)"
  have f: "follow ?parse (FileTailer_init ''f'' ''AAPL'') [Some [], Some ''r\<newline>p\<newline>'']
      = (\<lparr>filepath = ''f'', tailer_symbol = ''AAPL'', pos = 4, last_ts = Some 5\<rparr>, [\<lparr>price = 100, sma20 = 99, ema20 = 99, ema9 = 99, symbol = ''AAPL'', ts = 5, alert_id = 1\<rparr>])"
    by (simp add: follow_def FileTailer_init_def poll_tick_def check_truncated_def read_delta_def
        readlines_def process_line_def)
  note t = follow_yields_own_symbol_only [OF f]
  from t have 1: "symbol \<lparr>price = 100, sma20 = 99, ema20 = 99, ema9 = 99, symbol = ''AAPL'', ts = 5, alert_id = 1\<rparr> = ''AAPL''"
    by (simp add: FileTailer_init_def)
  from t have "?parse ''r\<newline>'' = Some \<lparr>price = 50, sma20 = 49, ema20 = 49, ema9 = 49, symbol = ''MSFT'', ts = 9, alert_id = 1\<rparr> \<and> symbol \<lparr>price = 50, sma20 = 49, ema20 = 49, ema9 = 49, symbol = ''MSFT'', ts = 9, alert_id = 1\<rparr> \<noteq> ''AAPL''
      \<longrightarrow> process_line ?parse ''AAPL'' (Some 5) ''r\<newline>'' = (Some 5, [])"
    by (simp add: FileTailer_init_def)
  then have 2: "process_line ?parse ''AAPL'' (Some 5) ''r\<newline>'' = (Some 5, [])" by simp
  from t have "pos \<lparr>filepath = ''f'', tailer_symbol = ''AAPL'', pos = 4, last_ts = Some 5\<rparr> < length ''r\<newline>p\<newline>r\<newline>''
      \<and> (\<forall>l\<in>set (readlines (drop (pos \<lparr>filepath = ''f'', tailer_symbol = ''AAPL'', pos = 4, last_ts = Some 5\<rparr>) ''r\<newline>p\<newline>r\<newline>'')).
            \<exists>a. ?parse l = Some a \<and> symbol a \<noteq> tailer_symbol \<lparr>filepath = ''f'', tailer_symbol = ''AAPL'', pos = 4, last_ts = Some 5\<rparr>)
      \<longrightarrow> poll_tick ?parse \<lparr>filepath = ''f'', tailer_symbol = ''AAPL'', pos = 4, last_ts = Some 5\<rparr> (Some ''r\<newline>p\<newline>r\<newline>'') = (\<lparr>filepath = ''f'', tailer_symbol = ''AAPL'', pos = 4, last_ts = Some 5\<rparr>\<lparr>pos := length ''r\<newline>p\<newline>r\<newline>''\<rparr>, [])"
    by blast
  then have 3: "poll_tick ?parse \<lparr>filepath = ''f'', tailer_symbol = ''AAPL'', pos = 4, last_ts = Some 5\<rparr> (Some ''r\<newline>p\<newline>r\<newline>'') = (\<lparr>filepath = ''f'', tailer_symbol = ''AAPL'', pos = 6, last_ts = Some 5\<rparr>, [])"
    by (simp add: readlines_def)
  from f 1 2 3 show ?thesis by blast
qed

section \<open>Properties of the trading engine\<close>

lemma get_info_update_info:
  "get_info (update_info k f m) symb =
     (if symb = k then map_option f (get_info m symb) else get_info m symb)"
  by (induction m) (auto simp: get_info_def update_info_def)

lemma symbols_update_info: "symbols (update_info k f m) = symbols m"
  by (induction m) (auto simp: symbols_def update_info_def)

lemmas manager_update_defs =
  update_current_price_def update_realized_pnl_def set_unrealized_pnl_def
  update_unrealized_pnl_def update_trade_count_def update_last_trade_price_def
  update_last_trade_side_def update_expected_trade_side_def update_is_blocked_def

lemma trade_updates_other:
  "symb \<noteq> k \<Longrightarrow> get_info (trade_updates pol k p side nxt m) symb = get_info m symb"
  by (simp add: trade_updates_def manager_update_defs get_info_update_info)

lemma send_exit_if_blocked_manager:
  "send_exit_if_blocked gw info k sent m = (m', sigs, err) \<Longrightarrow> m' = m"
  by (auto simp: send_exit_if_blocked_def Let_def split: option.splits if_splits)

lemma execute_trade_other:
  assumes "execute_trade pol gw info k p side mood nxt m = (m', sigs, err)" and "symb \<noteq> k"
  shows "get_info m' symb = get_info m symb"
proof (cases "gw \<lparr>webhook_url = info_webhook_url info, ticker = info_symbol info,
               action = side, sentiment = Some mood, quantity = Some (trade_quantity info)\<rparr>")
  case True
  with assms(1) have "m' = trade_updates pol k p side nxt m"
    by (simp add: execute_trade_def Let_def send_exit_if_blocked_manager)
  then show ?thesis using assms(2) by (simp add: trade_updates_other)
next
  case False
  with assms(1) show ?thesis by (simp add: execute_trade_def Let_def)
qed

lemma evaluate_trade_other:
  assumes "evaluate_trade pol gw tracker m k = (m', sigs, err)" and "symb \<noteq> k"
  shows "get_info m' symb = get_info m symb"
  using assms
  by (auto simp: evaluate_trade_def Let_def manager_update_defs get_info_update_info
      split: if_splits option.splits dest!: execute_trade_other [where symb = symb])


lemma run_symbols_blocked:
  assumes "get_info m symb = Some info" and "is_blocked info"
    and "run_symbols pol gw tracker m syms = (m', out, err)"
  shows "get_info m' symb = Some info \<and> symb \<notin> fst ` set out"
  using assms
proof (induction syms arbitrary: m m' out err)
  case Nil
  then show ?case by simp
next
  case (Cons k rest)
  show ?case
  proof (cases "get_info m k")
    case None
    with Cons.prems show ?thesis by simp
  next
    case (Some ik)
    show ?thesis
    proof (cases "is_blocked ik")
      case True
      with Some Cons.prems have "run_symbols pol gw tracker m rest = (m', out, err)" by simp
      with Cons.IH Cons.prems(1,2) show ?thesis by blast
    next
      case False
      with Some Cons.prems(1,2) have ne: "symb \<noteq> k" by auto
      obtain m1 sigs e1 where ev: "evaluate_trade pol gw tracker m k = (m1, sigs, e1)"
        by (cases "evaluate_trade pol gw tracker m k")
      have g1: "get_info m1 symb = Some info"
        using evaluate_trade_other [OF ev ne] Cons.prems(1) by simp
      show ?thesis
      proof (cases e1)
        case (Some e)
        with Cons.prems(3) \<open>get_info m k = Some ik\<close> False ev
        have "m' = m1" and "out = map (Pair k) sigs" by simp_all
        with g1 ne show ?thesis by auto
      next
        case None
        obtain m2 sigs2 e2 where r: "run_symbols pol gw tracker m1 rest = (m2, sigs2, e2)"
          by (cases "run_symbols pol gw tracker m1 rest")
        with Cons.prems(3) \<open>get_info m k = Some ik\<close> False ev None
        have "m' = m2" and o: "out = map (Pair k) sigs @ sigs2" by simp_all
        moreover have "get_info m2 symb = Some info \<and> symb \<notin> fst ` set sigs2"
          using Cons.IH [OF g1 Cons.prems(2) r] .
        ultimately show ?thesis using ne by auto
      qed
    qed
  qed
qed

lemma run_blocked:
  assumes "get_info m symb = Some info" and "is_blocked info"
    and "run pol gw m polls = (m', out, err)"
  shows "get_info m' symb = Some info \<and> symb \<notin> fst ` set out"
  using assms
proof (induction polls arbitrary: m m' out err)
  case Nil
  then show ?case by simp
next
  case (Cons tracker polls)
  obtain m1 sigs e1 where rs: "run_symbols pol gw tracker m (symbols m) = (m1, sigs, e1)"
    by (cases "run_symbols pol gw tracker m (symbols m)")
  have s1: "get_info m1 symb = Some info \<and> symb \<notin> fst ` set sigs"
    using run_symbols_blocked [OF Cons.prems(1,2) rs] .
  show ?case
  proof (cases e1)
    case (Some e)
    with Cons.prems(3) rs have "m' = m1" and "out = sigs" by simp_all
    with s1 show ?thesis by simp
  next
    case None
    obtain m2 sigs2 e2 where r: "run pol gw m1 polls = (m2, sigs2, e2)"
      by (cases "run pol gw m1 polls")
    with Cons.prems(3) rs None have "m' = m2" and "out = sigs @ sigs2" by simp_all
    moreover have "get_info m2 symb = Some info \<and> symb \<notin> fst ` set sigs2"
      using Cons.IH [OF _ Cons.prems(2) r] s1 by blast
    ultimately show ?thesis using s1 by auto
  qed
qed

lemma take_profit_branch:
  assumes "price_changed (tracker symb)" and "get_info m symb = Some info"
    and "unrealized_pnl info \<ge> 2"
  shows "evaluate_trade pol gw tracker m symb =
           (update_is_blocked pol symb
              (set_unrealized_pnl symb 0
                 (update_realized_pnl pol symb
                    (update_current_price symb (current_price (tracker symb)) m))), [], None)"
  using assms by (simp add: evaluate_trade_def Let_def)

lemma take_profit_state:
  assumes "get_info m symb = Some info"
  shows "get_info (update_is_blocked pol symb
              (set_unrealized_pnl symb 0
                 (update_realized_pnl pol symb (update_current_price symb p m)))) symb =
         Some (info\<lparr>info_current_price := Some p,
                    realized_pnl := realized_rule pol (info\<lparr>info_current_price := Some p\<rparr>),
                    unrealized_pnl := 0,
                    is_blocked := (is_blocked info \<or>
                       block_rule pol (info\<lparr>info_current_price := Some p,
                         realized_pnl := realized_rule pol (info\<lparr>info_current_price := Some p\<rparr>),
                         unrealized_pnl := 0\<rparr>))\<rparr>)"
  using assms by (simp add: manager_update_defs get_info_update_info)

text \<open>
  Claim C2. An evaluation that finds \<open>unrealized_pnl \<ge> 2\<close> for a symbol whose price has
  changed makes no gateway call at all, whatever the PnL and blocking rules are: it realizes,
  resets \<open>unrealized_pnl\<close> to 0 and calls \<open>update_is_blocked\<close>. When the symbol is blocked by
  that call, no EXIT is sent then, and in every later run no gateway call is made for the
  symbol and its state stays as it is, so no EXIT is ever sent for it.
\<close>

theorem take_profit_block_emits_no_exit:
  assumes "price_changed (tracker symb)" and "get_info m symb = Some info"
    and "unrealized_pnl info \<ge> 2"
    and "evaluate_trade pol gw tracker m symb = (m', sigs, err)"
  shows "sigs = [] \<and> err = None
     \<and> (\<exists>info'. get_info m' symb = Some info' \<and> unrealized_pnl info' = 0
          \<and> (is_blocked info' \<longrightarrow>
               (\<forall>polls m2 out e. run pol gw m' polls = (m2, out, e)
                  \<longrightarrow> symb \<notin> fst ` set out \<and> get_info m2 symb = Some info')))"
proof -
  let ?p = "current_price (tracker symb)"
  let ?m = "update_is_blocked pol symb (set_unrealized_pnl symb 0
              (update_realized_pnl pol symb (update_current_price symb ?p m)))"
  have e: "m' = ?m" "sigs = []" "err = None"
    using take_profit_branch [of tracker symb m info pol gw] assms by simp_all
  obtain info' where g: "get_info m' symb = Some info'" and u: "unrealized_pnl info' = 0"
    using take_profit_state [OF assms(2), of pol ?p] e(1) by simp
  have "is_blocked info' \<longrightarrow>
          (\<forall>polls m2 out e. run pol gw m' polls = (m2, out, e)
             \<longrightarrow> symb \<notin> fst ` set out \<and> get_info m2 symb = Some info')"
    using run_blocked [OF g] by blast
  with e g u show ?thesis by blast
qed


theorem take_profit_block_emits_no_exit_witness:
  "price_changed ((\<lambda>k. \<lparr>price_changed = True, current_price = 103, previous_price = Some 102\<rparr>) ''AAPL'')
   \<and> get_info [(''AAPL'', \<lparr>info_symbol = ''AAPL'', info_webhook_url = ''w'', trade_quantity = 1, last_trade_side = Some ''buy'', expected_trade_side = ''sell'', is_blocked = False, realized_pnl = 0, unrealized_pnl = 2, trade_count = 1, last_trade_price = Some 100, info_current_price = Some 102\<rparr>)] ''AAPL'' = Some \<lparr>info_symbol = ''AAPL'', info_webhook_url = ''w'', trade_quantity = 1, last_trade_side = Some ''buy'', expected_trade_side = ''sell'', is_blocked = False, realized_pnl = 0, unrealized_pnl = 2, trade_count = 1, last_trade_price = Some 100, info_current_price = Some 102\<rparr>
   \<and> unrealized_pnl \<lparr>info_symbol = ''AAPL'', info_webhook_url = ''w'', trade_quantity = 1, last_trade_side = Some ''buy'', expected_trade_side = ''sell'', is_blocked = False, realized_pnl = 0, unrealized_pnl = 2, trade_count = 1, last_trade_price = Some 100, info_current_price = Some 102\<rparr> \<ge> 2
   \<and> evaluate_trade \<lparr>realized_rule = (\<lambda>i. realized_pnl i + unrealized_pnl i), unrealized_rule = (\<lambda>i. 0), block_rule = (\<lambda>i. realized_pnl i \<ge> 2)\<rparr> (\<lambda>s. True) (\<lambda>k. \<lparr>price_changed = True, current_price = 103, previous_price = Some 102\<rparr>) [(''AAPL'', \<lparr>info_symbol = ''AAPL'', info_webhook_url = ''w'', trade_quantity = 1, last_trade_side = Some ''buy'', expected_trade_side = ''sell'', is_blocked = False, realized_pnl = 0, unrealized_pnl = 2, trade_count = 1, last_trade_price = Some 100, info_current_price = Some 102\<rparr>)] ''AAPL'' = ([(''AAPL'', \<lparr>info_symbol = ''AAPL'', info_webhook_url = ''w'', trade_quantity = 1, last_trade_side = Some ''buy'', expected_trade_side = ''sell'', is_blocked = True, realized_pnl = 2, unrealized_pnl = 0, trade_count = 1, last_trade_price = Some 100, info_current_price = Some 103\<rparr>)], [], None)
   \<and> is_blocked \<lparr>info_symbol = ''AAPL'', info_webhook_url = ''w'', trade_quantity = 1, last_trade_side = Some ''buy'', expected_trade_side = ''sell'', is_blocked = True, realized_pnl = 2, unrealized_pnl = 0, trade_count = 1, last_trade_price = Some 100, info_current_price = Some 103\<rparr>
   \<and> run \<lparr>realized_rule = (\<lambda>i. realized_pnl i + unrealized_pnl i), unrealized_rule = (\<lambda>i. 0), block_rule = (\<lambda>i. realized_pnl i \<ge> 2)\<rparr> (\<lambda>s. True) [(''AAPL'', \<lparr>info_symbol = ''AAPL'', info_webhook_url = ''w'', trade_quantity = 1, last_trade_side = Some ''buy'', expected_trade_side = ''sell'', is_blocked = True, realized_pnl = 2, unrealized_pnl = 0, trade_count = 1, last_trade_price = Some 100, info_current_price = Some 103\<rparr>)] [(\<lambda>k. \<lparr>price_changed = True, current_price = 103, previous_price = Some 102\<rparr>), (\<lambda>k. \<lparr>price_changed = True, current_price = 103, previous_price = Some 102\<rparr>)] = ([(''AAPL'', \<lparr>info_symbol = ''AAPL'', info_webhook_url = ''w'', trade_quantity = 1, last_trade_side = Some ''buy'', expected_trade_side = ''sell'', is_blocked = True, realized_pnl = 2, unrealized_pnl = 0, trade_count = 1, last_trade_price = Some 100, info_current_price = Some 103\<rparr>)], [], None)"
proof -
  have h1: "price_changed ((\<lambda>k. \<lparr>price_changed = True, current_price = 103, previous_price = Some 102\<rparr>) ''AAPL'')" by simp
  have h2: "get_info [(''AAPL'', \<lparr>info_symbol = ''AAPL'', info_webhook_url = ''w'', trade_quantity = 1, last_trade_side = Some ''buy'', expected_trade_side = ''sell'', is_blocked = False, realized_pnl = 0, unrealized_pnl = 2, trade_count = 1, last_trade_price = Some 100, info_current_price = Some 102\<rparr>)] ''AAPL'' = Some \<lparr>info_symbol = ''AAPL'', info_webhook_url = ''w'', trade_quantity = 1, last_trade_side = Some ''buy'', expected_trade_side = ''sell'', is_blocked = False, realized_pnl = 0, unrealized_pnl = 2, trade_count = 1, last_trade_price = Some 100, info_current_price = Some 102\<rparr>" by (simp add: get_info_def)
  have h3: "unrealized_pnl \<lparr>info_symbol = ''AAPL'', info_webhook_url = ''w'', trade_quantity = 1, last_trade_side = Some ''buy'', expected_trade_side = ''sell'', is_blocked = False, realized_pnl = 0, unrealized_pnl = 2, trade_count = 1, last_trade_price = Some 100, info_current_price = Some 102\<rparr> \<ge> 2" by simp
  have h4: "evaluate_trade \<lparr>realized_rule = (\<lambda>i. realized_pnl i + unrealized_pnl i), unrealized_rule = (\<lambda>i. 0), block_rule = (\<lambda>i. realized_pnl i \<ge> 2)\<rparr> (\<lambda>s. True) (\<lambda>k. \<lparr>price_changed = True, current_price = 103, previous_price = Some 102\<rparr>) [(''AAPL'', \<lparr>info_symbol = ''AAPL'', info_webhook_url = ''w'', trade_quantity = 1, last_trade_side = Some ''buy'', expected_trade_side = ''sell'', is_blocked = False, realized_pnl = 0, unrealized_pnl = 2, trade_count = 1, last_trade_price = Some 100, info_current_price = Some 102\<rparr>)] ''AAPL'' = ([(''AAPL'', \<lparr>info_symbol = ''AAPL'', info_webhook_url = ''w'', trade_quantity = 1, last_trade_side = Some ''buy'', expected_trade_side = ''sell'', is_blocked = True, realized_pnl = 2, unrealized_pnl = 0, trade_count = 1, last_trade_price = Some 100, info_current_price = Some 103\<rparr>)], [], None)"
    by (simp add: evaluate_trade_def get_info_def update_current_price_def
        update_realized_pnl_def set_unrealized_pnl_def update_is_blocked_def update_info_def)
  have h5: "run \<lparr>realized_rule = (\<lambda>i. realized_pnl i + unrealized_pnl i), unrealized_rule = (\<lambda>i. 0), block_rule = (\<lambda>i. realized_pnl i \<ge> 2)\<rparr> (\<lambda>s. True) [(''AAPL'', \<lparr>info_symbol = ''AAPL'', info_webhook_url = ''w'', trade_quantity = 1, last_trade_side = Some ''buy'', expected_trade_side = ''sell'', is_blocked = True, realized_pnl = 2, unrealized_pnl = 0, trade_count = 1, last_trade_price = Some 100, info_current_price = Some 103\<rparr>)] [(\<lambda>k. \<lparr>price_changed = True, current_price = 103, previous_price = Some 102\<rparr>), (\<lambda>k. \<lparr>price_changed = True, current_price = 103, previous_price = Some 102\<rparr>)] = ([(''AAPL'', \<lparr>info_symbol = ''AAPL'', info_webhook_url = ''w'', trade_quantity = 1, last_trade_side = Some ''buy'', expected_trade_side = ''sell'', is_blocked = True, realized_pnl = 2, unrealized_pnl = 0, trade_count = 1, last_trade_price = Some 100, info_current_price = Some 103\<rparr>)], [], None)"
    by (simp add: symbols_def get_info_def)
  from take_profit_block_emits_no_exit [OF h1 h2 h3 h4] h1 h2 h3 h4 h5 show ?thesis by simp
qed

lemma trade_updates_state:
  assumes "get_info m symb = Some i"
  shows "map_option trade_count (get_info (trade_updates pol symb p side nxt m) symb)
           = Some (Suc (trade_count i))"
    and "map_option last_trade_price (get_info (trade_updates pol symb p side nxt m) symb)
           = Some (Some p)"
    and "map_option last_trade_side (get_info (trade_updates pol symb p side nxt m) symb)
           = Some (Some side)"
    and "map_option expected_trade_side (get_info (trade_updates pol symb p side nxt m) symb)
           = Some nxt"
  using assms by (simp_all add: trade_updates_def manager_update_defs get_info_update_info)

lemma execute_trade_cases:
  assumes "execute_trade pol gw info symb p side mood nxt m = (m', sigs, err)"
    and "s = \<lparr>webhook_url = info_webhook_url info, ticker = info_symbol info,
               action = side, sentiment = Some mood, quantity = Some (trade_quantity info)\<rparr>"
  shows "sigs \<noteq> [] \<and> hd sigs = s
     \<and> (\<not> gw s \<longrightarrow> sigs = [s] \<and> err = Some GatewayRaised \<and> m' = m)
     \<and> (gw s \<longrightarrow> m' = trade_updates pol symb p side nxt m)"
  using assms
  by (auto simp: execute_trade_def send_exit_if_blocked_def Let_def
      split: if_splits option.splits)

lemma evaluate_trade_directional:
  assumes "price_changed (tracker symb)" and "get_info m symb = Some info"
    and "unrealized_pnl info < 2" and "\<not> is_blocked info"
    and "previous_price (tracker symb) = Some old" and "old \<noteq> 0"
    and "last_trade_side info \<noteq> Some side" and "expected_trade_side info = side"
    and "(side = ''buy'' \<and> old < current_price (tracker symb) \<and> nxt = ''sell''
            \<and> mood = ''bullish''
            \<and> m1 = update_current_price symb (current_price (tracker symb)) m)
         \<or> (side = ''sell'' \<and> current_price (tracker symb) < old \<and> nxt = ''buy''
            \<and> mood = ''bearish''
            \<and> m1 = update_is_blocked pol symb
                     (update_current_price symb (current_price (tracker symb)) m))"
  shows "evaluate_trade pol gw tracker m symb =
           execute_trade pol gw info symb (current_price (tracker symb)) side mood nxt m1"
  using assms by (auto simp: evaluate_trade_def Let_def)

lemma directional_start_state:
  assumes "get_info m symb = Some info"
    and "m1 = update_current_price symb p m \<or> m1 = update_is_blocked pol symb (update_current_price symb p m)"
  shows "\<exists>i. get_info m1 symb = Some i \<and> trade_count i = trade_count info
           \<and> last_trade_price i = last_trade_price info
           \<and> last_trade_side i = last_trade_side info
           \<and> expected_trade_side i = expected_trade_side info
           \<and> realized_pnl i = realized_pnl info \<and> unrealized_pnl i = unrealized_pnl info"
  using assms by (auto simp: manager_update_defs get_info_update_info)

text \<open>
  Claim C3, as the code has it. When an evaluation executes a trade (an uptick with a buy
  expected, or a downtick with a sell expected), the BUY or SELL gateway call comes first.
  If that call raises, the evaluation ends there: trade count, last trade price, the two
  sides and the PnL figures are as they were before. If it returns, all the updates are
  made, whatever happens to the exit alert that may follow them.
\<close>

theorem trade_alert_precedes_updates:
  assumes "price_changed (tracker symb)" and "get_info m symb = Some info"
    and "unrealized_pnl info < 2" and "\<not> is_blocked info"
    and "previous_price (tracker symb) = Some old" and "old \<noteq> 0"
    and "last_trade_side info \<noteq> Some side" and "expected_trade_side info = side"
    and "(side = ''buy'' \<and> old < current_price (tracker symb) \<and> nxt = ''sell''
            \<and> mood = ''bullish''
            \<and> m1 = update_current_price symb (current_price (tracker symb)) m)
         \<or> (side = ''sell'' \<and> current_price (tracker symb) < old \<and> nxt = ''buy''
            \<and> mood = ''bearish''
            \<and> m1 = update_is_blocked pol symb
                     (update_current_price symb (current_price (tracker symb)) m))"
    and "s = \<lparr>webhook_url = info_webhook_url info, ticker = info_symbol info,
               action = side, sentiment = Some mood, quantity = Some (trade_quantity info)\<rparr>"
    and "evaluate_trade pol gw tracker m symb = (m', sigs, err)"
  shows "sigs \<noteq> [] \<and> hd sigs = s
     \<and> (\<not> gw s \<longrightarrow>
          sigs = [s] \<and> err = Some GatewayRaised \<and> m' = m1
          \<and> map_option trade_count (get_info m' symb) = Some (trade_count info)
          \<and> map_option last_trade_price (get_info m' symb) = Some (last_trade_price info)
          \<and> map_option last_trade_side (get_info m' symb) = Some (last_trade_side info)
          \<and> map_option expected_trade_side (get_info m' symb) = Some (expected_trade_side info)
          \<and> map_option realized_pnl (get_info m' symb) = Some (realized_pnl info)
          \<and> map_option unrealized_pnl (get_info m' symb) = Some (unrealized_pnl info))
     \<and> (gw s \<longrightarrow>
          m' = trade_updates pol symb (current_price (tracker symb)) side nxt m1
          \<and> map_option trade_count (get_info m' symb) = Some (Suc (trade_count info))
          \<and> map_option last_trade_price (get_info m' symb)
              = Some (Some (current_price (tracker symb)))
          \<and> map_option last_trade_side (get_info m' symb) = Some (Some side)
          \<and> map_option expected_trade_side (get_info m' symb) = Some nxt)"
proof -
  let ?p = "current_price (tracker symb)"
  have ex: "execute_trade pol gw info symb ?p side mood nxt m1 = (m', sigs, err)"
    using evaluate_trade_directional
      [where tracker = tracker and symb = symb and m = m and info = info and old = old
         and side = side and nxt = nxt and mood = mood and ?m1.0 = m1 and pol = pol and gw = gw]
      assms by simp
  note c = execute_trade_cases [OF ex assms(10)]
  have m1: "m1 = update_current_price symb ?p m
      \<or> m1 = update_is_blocked pol symb (update_current_price symb ?p m)"
    using assms(9) by blast
  obtain i where i: "get_info m1 symb = Some i" "trade_count i = trade_count info"
    "last_trade_price i = last_trade_price info" "last_trade_side i = last_trade_side info"
    "expected_trade_side i = expected_trade_side info"
    "realized_pnl i = realized_pnl info" "unrealized_pnl i = unrealized_pnl info"
    using directional_start_state [OF assms(2) m1] by blast
  have raised: "\<not> gw s \<longrightarrow>
          sigs = [s] \<and> err = Some GatewayRaised \<and> m' = m1
          \<and> map_option trade_count (get_info m' symb) = Some (trade_count info)
          \<and> map_option last_trade_price (get_info m' symb) = Some (last_trade_price info)
          \<and> map_option last_trade_side (get_info m' symb) = Some (last_trade_side info)
          \<and> map_option expected_trade_side (get_info m' symb) = Some (expected_trade_side info)
          \<and> map_option realized_pnl (get_info m' symb) = Some (realized_pnl info)
          \<and> map_option unrealized_pnl (get_info m' symb) = Some (unrealized_pnl info)"
    using c i by simp
  have returned: "gw s \<longrightarrow>
          m' = trade_updates pol symb ?p side nxt m1
          \<and> map_option trade_count (get_info m' symb) = Some (Suc (trade_count info))
          \<and> map_option last_trade_price (get_info m' symb) = Some (Some ?p)
          \<and> map_option last_trade_side (get_info m' symb) = Some (Some side)
          \<and> map_option expected_trade_side (get_info m' symb) = Some nxt"
    using c trade_updates_state [OF i(1), of pol ?p side nxt] i(2) by simp
  from c raised returned show ?thesis by blast
qed

text \<open>
  The claim as stated (the updates are committed before the delivery is attempted, so a
  gateway call that raises does not prevent them) fails: on an uptick from 100 to 101 with a
  buy expected and a gateway that raises, the BUY call is attempted and the trade count stays
  0 and the last trade side stays unset.
\<close>

theorem gateway_raise_prevents_updates:
  "evaluate_trade \<lparr>realized_rule = (\<lambda>i. realized_pnl i + unrealized_pnl i), unrealized_rule = (\<lambda>i. 0), block_rule = (\<lambda>i. realized_pnl i \<ge> 2)\<rparr> (\<lambda>s. False) (\<lambda>k. \<lparr>price_changed = True, current_price = 101, previous_price = Some 100\<rparr>) [(''AAPL'', \<lparr>info_symbol = ''AAPL'', info_webhook_url = ''w'', trade_quantity = 1, last_trade_side = None, expected_trade_side = ''buy'', is_blocked = False, realized_pnl = 0, unrealized_pnl = 0, trade_count = 0, last_trade_price = None, info_current_price = None\<rparr>)] ''AAPL''
     = ([(''AAPL'', \<lparr>info_symbol = ''AAPL'', info_webhook_url = ''w'', trade_quantity = 1, last_trade_side = None, expected_trade_side = ''buy'', is_blocked = False, realized_pnl = 0, unrealized_pnl = 0, trade_count = 0, last_trade_price = None, info_current_price = Some 101\<rparr>)], [\<lparr>webhook_url = ''w'', ticker = ''AAPL'', action = ''buy'', sentiment = Some ''bullish'', quantity = Some 1\<rparr>], Some GatewayRaised)
   \<and> map_option trade_count (get_info [(''AAPL'', \<lparr>info_symbol = ''AAPL'', info_webhook_url = ''w'', trade_quantity = 1, last_trade_side = None, expected_trade_side = ''buy'', is_blocked = False, realized_pnl = 0, unrealized_pnl = 0, trade_count = 0, last_trade_price = None, info_current_price = Some 101\<rparr>)] ''AAPL'') = Some 0
   \<and> map_option last_trade_side (get_info [(''AAPL'', \<lparr>info_symbol = ''AAPL'', info_webhook_url = ''w'', trade_quantity = 1, last_trade_side = None, expected_trade_side = ''buy'', is_blocked = False, realized_pnl = 0, unrealized_pnl = 0, trade_count = 0, last_trade_price = None, info_current_price = Some 101\<rparr>)] ''AAPL'') = Some None"
  by (simp add: evaluate_trade_def execute_trade_def get_info_def update_current_price_def
      update_info_def)

theorem trade_alert_precedes_updates_witness:
  "evaluate_trade \<lparr>realized_rule = (\<lambda>i. realized_pnl i + unrealized_pnl i), unrealized_rule = (\<lambda>i. 0), block_rule = (\<lambda>i. realized_pnl i \<ge> 2)\<rparr> (\<lambda>s. True) (\<lambda>k. \<lparr>price_changed = True, current_price = 101, previous_price = Some 100\<rparr>) [(''AAPL'', \<lparr>info_symbol = ''AAPL'', info_webhook_url = ''w'', trade_quantity = 1, last_trade_side = None, expected_trade_side = ''buy'', is_blocked = False, realized_pnl = 0, unrealized_pnl = 0, trade_count = 0, last_trade_price = None, info_current_price = None\<rparr>)] ''AAPL''
     = ([(''AAPL'', \<lparr>info_symbol = ''AAPL'', info_webhook_url = ''w'', trade_quantity = 1, last_trade_side = Some ''buy'', expected_trade_side = ''sell'', is_blocked = False, realized_pnl = 0, unrealized_pnl = 0, trade_count = 1, last_trade_price = Some 101, info_current_price = Some 101\<rparr>)], [\<lparr>webhook_url = ''w'', ticker = ''AAPL'', action = ''buy'', sentiment = Some ''bullish'', quantity = Some 1\<rparr>], None)
   \<and> map_option trade_count (get_info [(''AAPL'', \<lparr>info_symbol = ''AAPL'', info_webhook_url = ''w'', trade_quantity = 1, last_trade_side = Some ''buy'', expected_trade_side = ''sell'', is_blocked = False, realized_pnl = 0, unrealized_pnl = 0, trade_count = 1, last_trade_price = Some 101, info_current_price = Some 101\<rparr>)] ''AAPL'') = Some (Suc 0)
   \<and> map_option last_trade_side (get_info [(''AAPL'', \<lparr>info_symbol = ''AAPL'', info_webhook_url = ''w'', trade_quantity = 1, last_trade_side = Some ''buy'', expected_trade_side = ''sell'', is_blocked = False, realized_pnl = 0, unrealized_pnl = 0, trade_count = 1, last_trade_price = Some 101, info_current_price = Some 101\<rparr>)] ''AAPL'') = Some (Some ''buy'')
   \<and> map_option expected_trade_side (get_info [(''AAPL'', \<lparr>info_symbol = ''AAPL'', info_webhook_url = ''w'', trade_quantity = 1, last_trade_side = Some ''buy'', expected_trade_side = ''sell'', is_blocked = False, realized_pnl = 0, unrealized_pnl = 0, trade_count = 1, last_trade_price = Some 101, info_current_price = Some 101\<rparr>)] ''AAPL'') = Some ''sell''
   \<and> map_option last_trade_price (get_info [(''AAPL'', \<lparr>info_symbol = ''AAPL'', info_webhook_url = ''w'', trade_quantity = 1, last_trade_side = Some ''buy'', expected_trade_side = ''sell'', is_blocked = False, realized_pnl = 0, unrealized_pnl = 0, trade_count = 1, last_trade_price = Some 101, info_current_price = Some 101\<rparr>)] ''AAPL'') = Some (Some 101)"
proof -
  let ?m = "[(''AAPL'', \<lparr>info_symbol = ''AAPL'', info_webhook_url = ''w'', trade_quantity = 1, last_trade_side = None, expected_trade_side = ''buy'', is_blocked = False, realized_pnl = 0, unrealized_pnl = 0, trade_count = 0, last_trade_price = None, info_current_price = None\<rparr>)]"
  have h1: "price_changed ((\<lambda>k. \<lparr>price_changed = True, current_price = 101, previous_price = Some 100\<rparr>) ''AAPL'')" by simp
  have h2: "get_info ?m ''AAPL'' = Some \<lparr>info_symbol = ''AAPL'', info_webhook_url = ''w'', trade_quantity = 1, last_trade_side = None, expected_trade_side = ''buy'', is_blocked = False, realized_pnl = 0, unrealized_pnl = 0, trade_count = 0, last_trade_price = None, info_current_price = None\<rparr>" by (simp add: get_info_def)
  have h3: "unrealized_pnl \<lparr>info_symbol = ''AAPL'', info_webhook_url = ''w'', trade_quantity = 1, last_trade_side = None, expected_trade_side = ''buy'', is_blocked = False, realized_pnl = 0, unrealized_pnl = 0, trade_count = 0, last_trade_price = None, info_current_price = None\<rparr> < 2" by simp
  have h4: "\<not> is_blocked \<lparr>info_symbol = ''AAPL'', info_webhook_url = ''w'', trade_quantity = 1, last_trade_side = None, expected_trade_side = ''buy'', is_blocked = False, realized_pnl = 0, unrealized_pnl = 0, trade_count = 0, last_trade_price = None, info_current_price = None\<rparr>" by simp
  have h5: "previous_price ((\<lambda>k. \<lparr>price_changed = True, current_price = 101, previous_price = Some 100\<rparr>) ''AAPL'') = Some 100" by simp
  have h6: "(100::real) \<noteq> 0" by simp
  have h7: "last_trade_side \<lparr>info_symbol = ''AAPL'', info_webhook_url = ''w'', trade_quantity = 1, last_trade_side = None, expected_trade_side = ''buy'', is_blocked = False, realized_pnl = 0, unrealized_pnl = 0, trade_count = 0, last_trade_price = None, info_current_price = None\<rparr> \<noteq> Some ''buy''" by simp
  have h8: "expected_trade_side \<lparr>info_symbol = ''AAPL'', info_webhook_url = ''w'', trade_quantity = 1, last_trade_side = None, expected_trade_side = ''buy'', is_blocked = False, realized_pnl = 0, unrealized_pnl = 0, trade_count = 0, last_trade_price = None, info_current_price = None\<rparr> = ''buy''" by simp
  have h9: "(''buy'' = ''buy'' \<and> 100 < current_price ((\<lambda>k. \<lparr>price_changed = True, current_price = 101, previous_price = Some 100\<rparr>) ''AAPL'') \<and> ''sell'' = ''sell''
            \<and> ''bullish'' = ''bullish''
            \<and> [(''AAPL'', \<lparr>info_symbol = ''AAPL'', info_webhook_url = ''w'', trade_quantity = 1, last_trade_side = None, expected_trade_side = ''buy'', is_blocked = False, realized_pnl = 0, unrealized_pnl = 0, trade_count = 0, last_trade_price = None, info_current_price = Some 101\<rparr>)] = update_current_price ''AAPL'' (current_price ((\<lambda>k. \<lparr>price_changed = True, current_price = 101, previous_price = Some 100\<rparr>) ''AAPL'')) ?m)
         \<or> (''buy'' = ''sell'' \<and> current_price ((\<lambda>k. \<lparr>price_changed = True, current_price = 101, previous_price = Some 100\<rparr>) ''AAPL'') < 100 \<and> ''sell'' = ''buy''
            \<and> ''bullish'' = ''bearish''
            \<and> [(''AAPL'', \<lparr>info_symbol = ''AAPL'', info_webhook_url = ''w'', trade_quantity = 1, last_trade_side = None, expected_trade_side = ''buy'', is_blocked = False, realized_pnl = 0, unrealized_pnl = 0, trade_count = 0, last_trade_price = None, info_current_price = Some 101\<rparr>)] = update_is_blocked \<lparr>realized_rule = (\<lambda>i. realized_pnl i + unrealized_pnl i), unrealized_rule = (\<lambda>i. 0), block_rule = (\<lambda>i. realized_pnl i \<ge> 2)\<rparr> ''AAPL''
                     (update_current_price ''AAPL'' (current_price ((\<lambda>k. \<lparr>price_changed = True, current_price = 101, previous_price = Some 100\<rparr>) ''AAPL'')) ?m))"
    by (simp add: update_current_price_def update_info_def)
  have h10: "\<lparr>webhook_url = ''w'', ticker = ''AAPL'', action = ''buy'', sentiment = Some ''bullish'', quantity = Some 1\<rparr> = \<lparr>webhook_url = info_webhook_url \<lparr>info_symbol = ''AAPL'', info_webhook_url = ''w'', trade_quantity = 1, last_trade_side = None, expected_trade_side = ''buy'', is_blocked = False, realized_pnl = 0, unrealized_pnl = 0, trade_count = 0, last_trade_price = None, info_current_price = None\<rparr>, ticker = info_symbol \<lparr>info_symbol = ''AAPL'', info_webhook_url = ''w'', trade_quantity = 1, last_trade_side = None, expected_trade_side = ''buy'', is_blocked = False, realized_pnl = 0, unrealized_pnl = 0, trade_count = 0, last_trade_price = None, info_current_price = None\<rparr>,
               action = ''buy'', sentiment = Some ''bullish'', quantity = Some (trade_quantity \<lparr>info_symbol = ''AAPL'', info_webhook_url = ''w'', trade_quantity = 1, last_trade_side = None, expected_trade_side = ''buy'', is_blocked = False, realized_pnl = 0, unrealized_pnl = 0, trade_count = 0, last_trade_price = None, info_current_price = None\<rparr>)\<rparr>"
    by simp
  have h11: "evaluate_trade \<lparr>realized_rule = (\<lambda>i. realized_pnl i + unrealized_pnl i), unrealized_rule = (\<lambda>i. 0), block_rule = (\<lambda>i. realized_pnl i \<ge> 2)\<rparr> (\<lambda>s. True) (\<lambda>k. \<lparr>price_changed = True, current_price = 101, previous_price = Some 100\<rparr>) ?m ''AAPL'' = ([(''AAPL'', \<lparr>info_symbol = ''AAPL'', info_webhook_url = ''w'', trade_quantity = 1, last_trade_side = Some ''buy'', expected_trade_side = ''sell'', is_blocked = False, realized_pnl = 0, unrealized_pnl = 0, trade_count = 1, last_trade_price = Some 101, info_current_price = Some 101\<rparr>)], [\<lparr>webhook_url = ''w'', ticker = ''AAPL'', action = ''buy'', sentiment = Some ''bullish'', quantity = Some 1\<rparr>], None)"
    by (simp add: evaluate_trade_def execute_trade_def send_exit_if_blocked_def trade_updates_def
        get_info_def manager_update_defs update_info_def)
  note t = trade_alert_precedes_updates [OF h1 h2 h3 h4 h5 h6 h7 h8 h9 h10 h11]
  from t have c:
    "map_option trade_count (get_info [(''AAPL'', \<lparr>info_symbol = ''AAPL'', info_webhook_url = ''w'', trade_quantity = 1, last_trade_side = Some ''buy'', expected_trade_side = ''sell'', is_blocked = False, realized_pnl = 0, unrealized_pnl = 0, trade_count = 1, last_trade_price = Some 101, info_current_price = Some 101\<rparr>)] ''AAPL'') = Some (Suc (trade_count \<lparr>info_symbol = ''AAPL'', info_webhook_url = ''w'', trade_quantity = 1, last_trade_side = None, expected_trade_side = ''buy'', is_blocked = False, realized_pnl = 0, unrealized_pnl = 0, trade_count = 0, last_trade_price = None, info_current_price = None\<rparr>))
     \<and> map_option last_trade_price (get_info [(''AAPL'', \<lparr>info_symbol = ''AAPL'', info_webhook_url = ''w'', trade_quantity = 1, last_trade_side = Some ''buy'', expected_trade_side = ''sell'', is_blocked = False, realized_pnl = 0, unrealized_pnl = 0, trade_count = 1, last_trade_price = Some 101, info_current_price = Some 101\<rparr>)] ''AAPL'')
         = Some (Some (current_price ((\<lambda>k. \<lparr>price_changed = True, current_price = 101, previous_price = Some 100\<rparr>) ''AAPL'')))
     \<and> map_option last_trade_side (get_info [(''AAPL'', \<lparr>info_symbol = ''AAPL'', info_webhook_url = ''w'', trade_quantity = 1, last_trade_side = Some ''buy'', expected_trade_side = ''sell'', is_blocked = False, realized_pnl = 0, unrealized_pnl = 0, trade_count = 1, last_trade_price = Some 101, info_current_price = Some 101\<rparr>)] ''AAPL'') = Some (Some ''buy'')
     \<and> map_option expected_trade_side (get_info [(''AAPL'', \<lparr>info_symbol = ''AAPL'', info_webhook_url = ''w'', trade_quantity = 1, last_trade_side = Some ''buy'', expected_trade_side = ''sell'', is_blocked = False, realized_pnl = 0, unrealized_pnl = 0, trade_count = 1, last_trade_price = Some 101, info_current_price = Some 101\<rparr>)] ''AAPL'') = Some ''sell''"
    by blast
  from c have
    "map_option trade_count (get_info [(''AAPL'', \<lparr>info_symbol = ''AAPL'', info_webhook_url = ''w'', trade_quantity = 1, last_trade_side = Some ''buy'', expected_trade_side = ''sell'', is_blocked = False, realized_pnl = 0, unrealized_pnl = 0, trade_count = 1, last_trade_price = Some 101, info_current_price = Some 101\<rparr>)] ''AAPL'') = Some (Suc 0)
     \<and> map_option last_trade_price (get_info [(''AAPL'', \<lparr>info_symbol = ''AAPL'', info_webhook_url = ''w'', trade_quantity = 1, last_trade_side = Some ''buy'', expected_trade_side = ''sell'', is_blocked = False, realized_pnl = 0, unrealized_pnl = 0, trade_count = 1, last_trade_price = Some 101, info_current_price = Some 101\<rparr>)] ''AAPL'') = Some (Some 101)
     \<and> map_option last_trade_side (get_info [(''AAPL'', \<lparr>info_symbol = ''AAPL'', info_webhook_url = ''w'', trade_quantity = 1, last_trade_side = Some ''buy'', expected_trade_side = ''sell'', is_blocked = False, realized_pnl = 0, unrealized_pnl = 0, trade_count = 1, last_trade_price = Some 101, info_current_price = Some 101\<rparr>)] ''AAPL'') = Some (Some ''buy'')
     \<and> map_option expected_trade_side (get_info [(''AAPL'', \<lparr>info_symbol = ''AAPL'', info_webhook_url = ''w'', trade_quantity = 1, last_trade_side = Some ''buy'', expected_trade_side = ''sell'', is_blocked = False, realized_pnl = 0, unrealized_pnl = 0, trade_count = 1, last_trade_price = Some 101, info_current_price = Some 101\<rparr>)] ''AAPL'') = Some ''sell''"
    by simp
  with h11 show ?thesis by blast
qed

end
